theory Spec2Isabelle
  imports Main
begin

section \<open>The imaging library as the thumbnailer uses it\<close>

text \<open>
  The thumbnailer of \<^verbatim>\<open>synapse/rest/media/v1/thumbnailer.py\<close> works on images of
  the Python Imaging Library. The library is not part of the repository; this section
  fixes the part of its behaviour the thumbnailer relies on. Python integers are
  unbounded, so every dimension is an \<open>int\<close>, and \<open>//\<close> on integers is floor
  division, which is \<open>div\<close> on \<open>int\<close>.
\<close>

datatype error =
    IOError
  | ValueError
  | KeyError string
  | ZeroDivisionError
  | TypeError
  | AttributeError
  | OverflowError
  | MemoryError
  | ExifError string

text \<open>The seven methods of \<^verbatim>\<open>Image.transpose\<close>.\<close>

datatype transpose_op =
    FLIP_LEFT_RIGHT
  | FLIP_TOP_BOTTOM
  | ROTATE_90
  | ROTATE_180
  | ROTATE_270
  | TRANSPOSE
  | TRANSVERSE

datatype resample = ANTIALIAS

text \<open>
  The pixel content of an image is kept symbolic: it is the decoded content of the
  input and the library calls made on it since. Resampling is floating-point work and
  its values are not modelled; two images with the same derivation have the same pixels,
  since every library call is a function of its arguments.
\<close>

datatype raster =
    Decoded
  | Transposed transpose_op raster
  | Resized "int \<times> int" resample raster
  | Cropped "int \<times> int \<times> int \<times> int" raster

text \<open>
  A value stored under a tag of the EXIF dictionary: an integer, some other hashable
  value (a string, bytes, a tuple), or an unhashable one, which cannot be a dictionary key.
\<close>

datatype exif_value = EInt int | EStr string | EUnhashable

type_synonym exif = "int \<rightharpoonup> exif_value"

text \<open>
  An image: its \<^verbatim>\<open>size\<close>, what a call of \<^verbatim>\<open>_getexif()\<close> on it does (an
  exception, \<^verbatim>\<open>None\<close>, or a dictionary), the entry \<^verbatim>\<open>info["exif"]\<close> (\<open>None\<close>
  when it is absent or holds \<^verbatim>\<open>None\<close>), and its pixel content.
\<close>

record pil_image =
  im_size :: "int \<times> int"
  im_getexif :: "error + exif option"
  im_info_exif :: "string option"
  im_raster :: raster

text \<open>\<^verbatim>\<open>Image.open\<close>: a file that is not an image raises.\<close>

datatype input_file = NotAnImage | ImageFile pil_image

definition Image_open :: "input_file \<Rightarrow> error + pil_image" where
  "Image_open input_path =
     (case input_path of NotAnImage \<Rightarrow> Inl IOError | ImageFile im \<Rightarrow> Inr im)"

text \<open>
  \<^verbatim>\<open>Image.transpose(method)\<close>: the quarter turns and the two diagonal flips swap
  width and height. The result is a plain image: it keeps the \<^verbatim>\<open>info\<close> dictionary
  and has no \<^verbatim>\<open>_getexif\<close> method.
\<close>

fun swaps_axes :: "transpose_op \<Rightarrow> bool" where
  "swaps_axes ROTATE_90 = True"
| "swaps_axes ROTATE_270 = True"
| "swaps_axes TRANSPOSE = True"
| "swaps_axes TRANSVERSE = True"
| "swaps_axes FLIP_LEFT_RIGHT = False"
| "swaps_axes FLIP_TOP_BOTTOM = False"
| "swaps_axes ROTATE_180 = False"

definition pil_transpose :: "pil_image \<Rightarrow> transpose_op \<Rightarrow> pil_image" where
  "pil_transpose im method =
     im\<lparr>im_size := (if swaps_axes method then (snd (im_size im), fst (im_size im))
                    else im_size im),
        im_getexif := Inl AttributeError,
        im_raster := Transposed method (im_raster im)\<rparr>"

text \<open>
  The library is written in C and takes the two components of a size as C integers of
  32 bits.
\<close>

definition INT_MIN :: int where
  "INT_MIN = - 2147483648"

definition INT_MAX :: int where
  "INT_MAX = 2147483647"

text \<open>
  Whether the library can allocate an image of a given size depends on the machine it
  runs on. It is a parameter of the model: \<open>alloc sz\<close> holds when an image of size
  \<open>sz\<close> can be allocated.
\<close>

type_synonym allocator = "int \<times> int \<Rightarrow> bool"

text \<open>
  \<^verbatim>\<open>Image.resize(size, resample)\<close>: the result has exactly the requested size. A
  requested width or height outside the range of a C integer raises
  \<^verbatim>\<open>OverflowError\<close> when the arguments are converted; one below 1 raises
  \<^verbatim>\<open>ValueError\<close>; a size that cannot be allocated raises \<^verbatim>\<open>MemoryError\<close>.
\<close>

definition pil_resize ::
  "allocator \<Rightarrow> pil_image \<Rightarrow> int \<times> int \<Rightarrow> resample \<Rightarrow> error + pil_image" where
  "pil_resize alloc im sz flt =
     (if fst sz < INT_MIN \<or> INT_MAX < fst sz \<or> snd sz < INT_MIN \<or> INT_MAX < snd sz
      then Inl OverflowError
      else if fst sz < 1 \<or> snd sz < 1 then Inl ValueError
      else if \<not> alloc sz then Inl MemoryError
      else Inr (im\<lparr>im_size := sz,
                   im_getexif := Inl AttributeError,
                   im_raster := Resized sz flt (im_raster im)\<rparr>))"



text \<open>Integer floor division, raising on a zero divisor.\<close>

definition floordiv :: "int \<Rightarrow> int \<Rightarrow> error + int" where
  "floordiv a b = (if b = 0 then Inl ZeroDivisionError else Inr (a div b))"


section \<open>The thumbnailer\<close>

definition EXIF_ORIENTATION_TAG :: int where
  "EXIF_ORIENTATION_TAG = 0x0112"

definition EXIF_TRANSPOSE_MAPPINGS :: "int \<rightharpoonup> transpose_op" where
  "EXIF_TRANSPOSE_MAPPINGS =
     [2 \<mapsto> FLIP_LEFT_RIGHT,
      3 \<mapsto> ROTATE_180,
      4 \<mapsto> FLIP_TOP_BOTTOM,
      5 \<mapsto> TRANSPOSE,
      6 \<mapsto> ROTATE_270,
      7 \<mapsto> TRANSVERSE,
      8 \<mapsto> ROTATE_90]"

text \<open>
  \<^verbatim>\<open>EXIF_TRANSPOSE_MAPPINGS.get(key)\<close> for the value \<^verbatim>\<open>image_exif.get(tag)\<close> gave:
  \<^verbatim>\<open>None\<close> and hashable values that equal no key give \<^verbatim>\<open>None\<close>, an unhashable
  value raises \<^verbatim>\<open>TypeError\<close>.
\<close>

definition mappings_get :: "exif_value option \<Rightarrow> error + transpose_op option" where
  "mappings_get key =
     (case key of
        None \<Rightarrow> Inr None
      | Some (EInt n) \<Rightarrow> Inr (EXIF_TRANSPOSE_MAPPINGS n)
      | Some (EStr s) \<Rightarrow> Inr None
      | Some EUnhashable \<Rightarrow> Inl TypeError)"


record thumbnailer =
  image_obj :: pil_image
  width :: int
  height :: int
  transpose_method :: "transpose_op option"

text \<open>A record of the module's logger: the level is always \<^verbatim>\<open>info\<close>.\<close>

datatype log_record = Info string error

text \<open>
  The body of the \<^verbatim>\<open>try\<close> block of \<^verbatim>\<open>__init__\<close>: the value it would assign to
  \<^verbatim>\<open>transpose_method\<close>, or the exception raised before the assignment.
\<close>

definition read_orientation :: "pil_image \<Rightarrow> error + transpose_op option" where
  "read_orientation im =
     (case im_getexif im of
        Inl e \<Rightarrow> Inl e
      | Inr None \<Rightarrow> Inr None
      | Inr (Some image_exif) \<Rightarrow> mappings_get (image_exif EXIF_ORIENTATION_TAG))"

text \<open>
  \<^verbatim>\<open>__init__\<close>: the new instance and the records logged, or the exception of
  \<^verbatim>\<open>Image.open\<close>. \<^verbatim>\<open>transpose_method\<close> is \<^verbatim>\<open>None\<close> before the \<^verbatim>\<open>try\<close>, and the
  handler only logs.
\<close>

definition init :: "input_file \<Rightarrow> error + (thumbnailer \<times> log_record list)" where
  "init input_path =
     (case Image_open input_path of
        Inl e \<Rightarrow> Inl e
      | Inr im \<Rightarrow>
          let self = \<lparr>image_obj = im, width = fst (im_size im), height = snd (im_size im),
                      transpose_method = None\<rparr>
          in (case read_orientation im of
                Inr m \<Rightarrow> Inr (self\<lparr>transpose_method := m\<rparr>, [])
              | Inl e \<Rightarrow> Inr (self, [Info ''Error parsing image EXIF information: %s'' e])))"

text \<open>\<^verbatim>\<open>transpose\<close>: the size returned and the instance after the call.\<close>

definition transpose_t :: "thumbnailer \<Rightarrow> (int \<times> int) \<times> thumbnailer" where
  "transpose_t self =
     (case transpose_method self of
        None \<Rightarrow> (im_size (image_obj self), self)
      | Some m \<Rightarrow>
          let im = pil_transpose (image_obj self) m;
              self' = self\<lparr>image_obj := im\<lparr>im_info_exif := None\<rparr>,
                           width := fst (im_size im),
                           height := snd (im_size im),
                           transpose_method := None\<rparr>
          in (im_size (image_obj self'), self'))"

definition aspect :: "thumbnailer \<Rightarrow> int \<Rightarrow> int \<Rightarrow> error + (int \<times> int)" where
  "aspect self max_width max_height =
     (if max_width * height self < max_height * width self then
        (case floordiv (max_width * height self) (width self) of
           Inl e \<Rightarrow> Inl e
         | Inr q \<Rightarrow> Inr (max_width, q))
      else
        (case floordiv (max_height * width self) (height self) of
           Inl e \<Rightarrow> Inl e
         | Inr q \<Rightarrow> Inr (q, max_height)))"





section \<open>Sample inputs\<close>

text \<open>A decoded source of the given size with no EXIF dictionary.\<close>

definition plain_image :: "int \<Rightarrow> int \<Rightarrow> pil_image" where
  "plain_image w h =
     \<lparr>im_size = (w, h), im_getexif = Inr None, im_info_exif = None, im_raster = Decoded\<rparr>"

text \<open>The instance \<^verbatim>\<open>__init__\<close> builds from it.\<close>

definition plain_thumbnailer :: "int \<Rightarrow> int \<Rightarrow> thumbnailer" where
  "plain_thumbnailer w h =
     \<lparr>image_obj = plain_image w h, width = w, height = h, transpose_method = None\<rparr>"

text \<open>
  A decoded source of the given size whose EXIF dictionary holds the given value under
  the orientation tag, and the raw EXIF block in \<^verbatim>\<open>info\<close>.
\<close>

definition tagged_image :: "int \<Rightarrow> int \<Rightarrow> exif_value \<Rightarrow> pil_image" where
  "tagged_image w h v =
     \<lparr>im_size = (w, h), im_getexif = Inr (Some [EXIF_ORIENTATION_TAG \<mapsto> v]),
      im_info_exif = Some ''Exif'', im_raster = Decoded\<rparr>"

text \<open>A decoded source of the given size whose EXIF block makes the parser raise.\<close>

definition broken_exif_image :: "int \<Rightarrow> int \<Rightarrow> pil_image" where
  "broken_exif_image w h =
     \<lparr>im_size = (w, h), im_getexif = Inl (ExifError ''not enough data''),
      im_info_exif = Some ''Exif'', im_raster = Decoded\<rparr>"



lemma init_plain_image:
  "init (ImageFile (plain_image w h)) = Inr (plain_thumbnailer w h, [])"
  by (simp add: init_def Image_open_def read_orientation_def plain_image_def
      plain_thumbnailer_def)


section \<open>Fit mode\<close>

lemma floordiv_pos: "b \<noteq> 0 \<Longrightarrow> floordiv a b = Inr (a div b)"
  by (simp add: floordiv_def)

lemma aspect_width_constrained:
  "max_width * height self < max_height * width self \<Longrightarrow> width self \<noteq> 0 \<Longrightarrow>
   aspect self max_width max_height = Inr (max_width, (max_width * height self) div width self)"
  by (simp add: aspect_def floordiv_pos)

lemma aspect_height_constrained:
  "\<not> max_width * height self < max_height * width self \<Longrightarrow> height self \<noteq> 0 \<Longrightarrow>
   aspect self max_width max_height = Inr ((max_height * width self) div height self, max_height)"
  by (simp add: aspect_def floordiv_pos)

lemma div_below_strict: "0 < (b::int) \<Longrightarrow> a < c * b \<Longrightarrow> a div b < c"
proof -
  assume b: "0 < b" and lt: "a < c * b"
  have "a div b * b \<le> a"
    using b by (simp add: div_mult_self_is_m minus_mod_eq_div_mult [symmetric])
  with lt have "a div b * b < c * b" by simp
  with b show ?thesis by (simp add: mult_less_cancel_right)
qed

lemma div_below: "0 < (b::int) \<Longrightarrow> a \<le> c * b \<Longrightarrow> a div b \<le> c"
  using zdiv_mono1 [of a "c * b" b] by simp


text \<open>
  C1. For positive \<open>max_width\<close>, \<open>max_height\<close> and a source of positive width and
  height, \<^verbatim>\<open>aspect\<close> returns a pair \<open>(w_out, h_out)\<close> inside the box that touches it
  on one axis: \<open>w_out \<le> max_width\<close>, \<open>h_out \<le> max_height\<close>, and
  \<open>w_out = max_width\<close> or \<open>h_out = max_height\<close>.
\<close>

theorem aspect_fits_box:
  assumes "0 < max_width" and "0 < max_height"
    and "0 < width self" and "0 < height self"
  shows "\<exists>w_out h_out. aspect self max_width max_height = Inr (w_out, h_out)
           \<and> w_out \<le> max_width \<and> h_out \<le> max_height
           \<and> (w_out = max_width \<or> h_out = max_height)"
proof (cases "max_width * height self < max_height * width self")
  case True
  have "(max_width * height self) div width self < max_height"
    using assms(3) True by (rule div_below_strict)
  with True assms(3) show ?thesis
    by (simp add: aspect_width_constrained)
next
  case False
  then have "max_height * width self \<le> max_width * height self"
    by simp
  with assms(4) have "(max_height * width self) div height self \<le> max_width"
    by (rule div_below)
  with False assms(4) show ?thesis
    by (simp add: aspect_height_constrained)
qed

theorem aspect_fits_box_witness:
  "(0::int) < 300 \<and> (0::int) < 200
   \<and> 0 < width (plain_thumbnailer 640 480) \<and> 0 < height (plain_thumbnailer 640 480)
   \<and> (\<exists>w_out h_out. aspect (plain_thumbnailer 640 480) 300 200 = Inr (w_out, h_out)
         \<and> w_out \<le> 300 \<and> h_out \<le> 200 \<and> (w_out = 300 \<or> h_out = 200))"
proof -
  have w: "0 < width (plain_thumbnailer 640 480)"
    and h: "0 < height (plain_thumbnailer 640 480)"
    by (simp_all add: plain_thumbnailer_def)
  have mw: "(0::int) < 300" and mh: "(0::int) < 200"
    by simp_all
  from aspect_fits_box [OF mw mh w h] w h show ?thesis
    by simp
qed

text \<open>
  C7, as the code has it. On a source of 640 by 480, \<^verbatim>\<open>aspect(200, 200)\<close> takes the
  width-constrained branch, since \<open>200 * 480 = 96000 < 200 * 640 = 128000\<close> holds, and
  returns \<open>(200, (200 * 480) div 640) = (200, 150)\<close>.
\<close>

theorem aspect_640_480_in_200_200:
  "200 * height (plain_thumbnailer 640 480) < 200 * width (plain_thumbnailer 640 480)
   \<and> aspect (plain_thumbnailer 640 480) 200 200 = Inr (200, (200 * 480) div 640)
   \<and> aspect (plain_thumbnailer 640 480) 200 200 = Inr (200, 150)"
  by (simp add: aspect_def floordiv_def plain_thumbnailer_def)

text \<open>
  C7, as the specification states it, fails: the comparison \<open>200 * 480 < 200 * 640\<close>
  is true, not false, and the result is not \<open>(266, 200)\<close>.
\<close>

theorem aspect_640_480_not_266_200:
  "\<not> (\<not> (200 * height (plain_thumbnailer 640 480) < 200 * width (plain_thumbnailer 640 480))
      \<and> aspect (plain_thumbnailer 640 480) 200 200 = Inr ((200 * 640) div 480, 200))
   \<and> aspect (plain_thumbnailer 640 480) 200 200 \<noteq> Inr (266, 200)"
  by (simp add: aspect_def floordiv_def plain_thumbnailer_def)

text \<open>
  C2. For positive \<open>max_width\<close>, \<open>max_height\<close> and a source of positive width and
  height, \<^verbatim>\<open>aspect\<close> returns \<open>(max_width, (max_width * height) div width)\<close> when
  \<open>max_width * height < max_height * width\<close>, and
  \<open>((max_height * width) div height, max_height)\<close> otherwise; when the two products are
  equal it is the second, height-constrained, pair.
\<close>

theorem aspect_decision_rule:
  assumes "0 < max_width" and "0 < max_height"
    and "0 < width self" and "0 < height self"
  shows "aspect self max_width max_height =
           (if max_width * height self < max_height * width self
            then Inr (max_width, (max_width * height self) div width self)
            else Inr ((max_height * width self) div height self, max_height))
         \<and> (max_width * height self = max_height * width self \<longrightarrow>
              aspect self max_width max_height =
                Inr ((max_height * width self) div height self, max_height))"
  using assms(3,4) by (simp add: aspect_def floordiv_pos)

text \<open>
  An instance with a tie: a source of 640 by 480 and a box of 400 by 300, where
  \<open>400 * 480 = 300 * 640\<close>.
\<close>

theorem aspect_decision_rule_witness:
  "(0::int) < 400 \<and> (0::int) < 300
   \<and> 0 < width (plain_thumbnailer 640 480) \<and> 0 < height (plain_thumbnailer 640 480)
   \<and> 400 * height (plain_thumbnailer 640 480) = 300 * width (plain_thumbnailer 640 480)
   \<and> aspect (plain_thumbnailer 640 480) 400 300 = Inr (400, 300)"
proof -
  have w: "0 < width (plain_thumbnailer 640 480)"
    and h: "0 < height (plain_thumbnailer 640 480)"
    by (simp_all add: plain_thumbnailer_def)
  have mw: "(0::int) < 400" and mh: "(0::int) < 300"
    by simp_all
  from aspect_decision_rule [OF mw mh w h] show ?thesis
    by (simp add: plain_thumbnailer_def)
qed

text \<open>
  C9. The result of \<^verbatim>\<open>aspect\<close> need not be positive: on a source of 640 by 480,
  \<^verbatim>\<open>aspect(1, 1000)\<close> is \<open>(1, 0)\<close>. So there are a source of positive width and
  height and positive \<open>max_width\<close>, \<open>max_height\<close> for which the pair returned has a
  zero component.
\<close>

theorem aspect_zero_component:
  "aspect (plain_thumbnailer 640 480) 1 1000 = Inr (1, 0)
   \<and> (\<exists>self max_width max_height w_out h_out.
         0 < width self \<and> 0 < height self \<and> 0 < max_width \<and> 0 < max_height
         \<and> aspect self max_width max_height = Inr (w_out, h_out)
         \<and> (w_out = 0 \<or> h_out = 0))"
proof -
  have a: "aspect (plain_thumbnailer 640 480) 1 1000 = Inr (1, 0)"
    by (simp add: aspect_def floordiv_def plain_thumbnailer_def)
  have "0 < width (plain_thumbnailer 640 480) \<and> 0 < height (plain_thumbnailer 640 480)
        \<and> (0::int) < 1 \<and> (0::int) < 1000
        \<and> aspect (plain_thumbnailer 640 480) 1 1000 = Inr (1, 0) \<and> ((1::int) = 0 \<or> (0::int) = 0)"
    using a by (simp add: plain_thumbnailer_def)
  then have "\<exists>self max_width max_height w_out h_out.
         0 < width self \<and> 0 < height self \<and> 0 < max_width \<and> 0 < max_height
         \<and> aspect self max_width max_height = Inr (w_out, h_out)
         \<and> (w_out = 0 \<or> h_out = 0)"
    by blast
  with a show ?thesis by simp
qed

text \<open>
  C10. \<^verbatim>\<open>aspect\<close> does not clamp to the size of the source: for a source of positive
  width and height, \<^verbatim>\<open>aspect(2 * width, 2 * height)\<close> is \<open>(2 * width, 2 * height)\<close>,
  twice the source in each direction.
\<close>

theorem aspect_upscales:
  assumes "0 < width self" and "0 < height self"
  shows "aspect self (2 * width self) (2 * height self) = Inr (2 * width self, 2 * height self)"
proof -
  have tie: "\<not> 2 * width self * height self < 2 * height self * width self"
    by simp
  have nz: "height self \<noteq> 0"
    using assms(2) by simp
  have "aspect self (2 * width self) (2 * height self) =
          Inr ((2 * height self * width self) div height self, 2 * height self)"
    using tie nz by (rule aspect_height_constrained)
  moreover have "(2 * height self * width self) div height self = 2 * width self"
    using nz by simp
  ultimately show ?thesis by simp
qed

theorem aspect_upscales_witness:
  "0 < width (plain_thumbnailer 640 480) \<and> 0 < height (plain_thumbnailer 640 480)
   \<and> aspect (plain_thumbnailer 640 480) 1280 960 = Inr (1280, 960)"
proof -
  have w: "0 < width (plain_thumbnailer 640 480)"
    and h: "0 < height (plain_thumbnailer 640 480)"
    by (simp_all add: plain_thumbnailer_def)
  from aspect_upscales [OF w h] w h show ?thesis
    by (simp add: plain_thumbnailer_def)
qed


section \<open>Orientation\<close>

lemma transpose_t_None:
  "transpose_method self = None \<Longrightarrow> transpose_t self = (im_size (image_obj self), self)"
  by (simp add: transpose_t_def)

lemma transpose_t_Some:
  "transpose_method self = Some m \<Longrightarrow>
   transpose_t self =
     (im_size (pil_transpose (image_obj self) m),
      self\<lparr>image_obj := (pil_transpose (image_obj self) m)\<lparr>im_info_exif := None\<rparr>,
           width := fst (im_size (pil_transpose (image_obj self) m)),
           height := snd (im_size (pil_transpose (image_obj self) m)),
           transpose_method := None\<rparr>)"
  by (simp add: transpose_t_def Let_def)

lemma transpose_t_clears: "transpose_method (snd (transpose_t self)) = None"
  by (cases "transpose_method self") (simp_all add: transpose_t_None transpose_t_Some)

lemma transpose_t_returns_size:
  "fst (transpose_t self) = im_size (image_obj (snd (transpose_t self)))"
  by (cases "transpose_method self") (simp_all add: transpose_t_None transpose_t_Some)

lemma transpose_t_again:
  "transpose_t (snd (transpose_t self)) = (fst (transpose_t self), snd (transpose_t self))"
  by (simp add: transpose_t_None [OF transpose_t_clears] transpose_t_returns_size)

lemma transpose_t_repeated:
  "((\<lambda>s. snd (transpose_t s)) ^^ n) (snd (transpose_t self)) = snd (transpose_t self)"
  by (induction n) (simp_all add: transpose_t_again)

text \<open>
  C4. A second call of \<^verbatim>\<open>transpose\<close> right after a first returns the same
  \<open>(width, height)\<close> as the first and leaves the instance, and so the stored raster,
  as the first call left it. After the first call no transform is pending, and any
  number of further calls leaves the instance unchanged: the transform is applied at
  most once.
\<close>

theorem transpose_idempotent:
  "fst (transpose_t (snd (transpose_t self))) = fst (transpose_t self)
   \<and> snd (transpose_t (snd (transpose_t self))) = snd (transpose_t self)
   \<and> im_raster (image_obj (snd (transpose_t (snd (transpose_t self)))))
       = im_raster (image_obj (snd (transpose_t self)))
   \<and> transpose_method (snd (transpose_t self)) = None
   \<and> ((\<lambda>s. snd (transpose_t s)) ^^ n) (snd (transpose_t self)) = snd (transpose_t self)"
  by (simp add: transpose_t_again transpose_t_clears transpose_t_repeated)

lemma init_ImageFile:
  "init (ImageFile im) =
     (case read_orientation im of
        Inr m \<Rightarrow> Inr (\<lparr>image_obj = im, width = fst (im_size im), height = snd (im_size im),
                       transpose_method = m\<rparr>, [])
      | Inl e \<Rightarrow> Inr (\<lparr>image_obj = im, width = fst (im_size im), height = snd (im_size im),
                       transpose_method = None\<rparr>,
                     [Info ''Error parsing image EXIF information: %s'' e]))"
  by (simp add: init_def Image_open_def Let_def split: sum.splits)

lemma read_orientation_int:
  "im_getexif im = Inr (Some image_exif) \<Longrightarrow> image_exif EXIF_ORIENTATION_TAG = Some (EInt n) \<Longrightarrow>
   read_orientation im = Inr (EXIF_TRANSPOSE_MAPPINGS n)"
  by (simp add: read_orientation_def mappings_get_def)

text \<open>
  C8. For a source whose EXIF orientation tag is 6, the constructor records the
  transform \<^verbatim>\<open>ROTATE_270\<close>, and \<^verbatim>\<open>transpose()\<close> applies it and returns the size
  with width and height swapped; for a source of 100 by 50 that is \<open>(50, 100)\<close>.
\<close>

theorem transpose_tag_6_swaps:
  assumes "im_size im = (w, h)"
    and "im_getexif im = Inr (Some image_exif)"
    and "image_exif EXIF_ORIENTATION_TAG = Some (EInt 6)"
  shows "\<exists>self logs. init (ImageFile im) = Inr (self, logs)
           \<and> transpose_method self = Some ROTATE_270
           \<and> fst (transpose_t self) = (h, w)
           \<and> width (snd (transpose_t self)) = h \<and> height (snd (transpose_t self)) = w
           \<and> im_raster (image_obj (snd (transpose_t self)))
               = Transposed ROTATE_270 (im_raster im)"
proof -
  let ?self = "\<lparr>image_obj = im, width = fst (im_size im), height = snd (im_size im),
                transpose_method = Some ROTATE_270\<rparr>"
  have "EXIF_TRANSPOSE_MAPPINGS 6 = Some ROTATE_270"
    by (simp add: EXIF_TRANSPOSE_MAPPINGS_def)
  with assms(2,3) have "read_orientation im = Inr (Some ROTATE_270)"
    by (simp add: read_orientation_int)
  then have i: "init (ImageFile im) = Inr (?self, [])"
    by (simp add: init_ImageFile)
  have m: "transpose_method ?self = Some ROTATE_270"
    by simp
  have "fst (transpose_t ?self) = (h, w)
        \<and> width (snd (transpose_t ?self)) = h \<and> height (snd (transpose_t ?self)) = w
        \<and> im_raster (image_obj (snd (transpose_t ?self))) = Transposed ROTATE_270 (im_raster im)"
    using assms(1) by (simp add: transpose_t_def Let_def pil_transpose_def)
  with i m show ?thesis
    by blast
qed

theorem transpose_tag_6_swaps_witness:
  "im_size (tagged_image 100 50 (EInt 6)) = (100, 50)
   \<and> im_getexif (tagged_image 100 50 (EInt 6)) = Inr (Some [EXIF_ORIENTATION_TAG \<mapsto> EInt 6])
   \<and> [EXIF_ORIENTATION_TAG \<mapsto> EInt 6] EXIF_ORIENTATION_TAG = Some (EInt 6)
   \<and> (\<exists>self logs. init (ImageFile (tagged_image 100 50 (EInt 6))) = Inr (self, logs)
         \<and> fst (transpose_t self) = (50, 100))"
proof -
  have s: "im_size (tagged_image 100 50 (EInt 6)) = (100, 50)"
    and g: "im_getexif (tagged_image 100 50 (EInt 6))
              = Inr (Some [EXIF_ORIENTATION_TAG \<mapsto> EInt 6])"
    by (simp_all add: tagged_image_def)
  have t: "[EXIF_ORIENTATION_TAG \<mapsto> EInt 6] EXIF_ORIENTATION_TAG = Some (EInt 6)"
    by simp
  from transpose_tag_6_swaps [OF s g t] have
    "\<exists>self logs. init (ImageFile (tagged_image 100 50 (EInt 6))) = Inr (self, logs)
         \<and> fst (transpose_t self) = (50, 100)"
    by blast
  with s g t show ?thesis
    by blast
qed


section \<open>Encoding\<close>





lemma pil_resize_too_wide:
  "INT_MAX < w \<Longrightarrow> pil_resize alloc im (w, h) flt = Inl OverflowError"
  by (simp add: pil_resize_def)










section \<open>Fill mode\<close>






section \<open>Construction\<close>

lemma mappings_out_of_range: "n < 2 \<or> 8 < n \<Longrightarrow> EXIF_TRANSPOSE_MAPPINGS n = None"
  by (auto simp add: EXIF_TRANSPOSE_MAPPINGS_def)

lemma read_orientation_cases:
  "read_orientation im =
     (case im_getexif im of
        Inl e \<Rightarrow> Inl e
      | Inr None \<Rightarrow> Inr None
      | Inr (Some image_exif) \<Rightarrow>
          (case image_exif EXIF_ORIENTATION_TAG of
             None \<Rightarrow> Inr None
           | Some (EInt n) \<Rightarrow> Inr (EXIF_TRANSPOSE_MAPPINGS n)
           | Some (EStr s) \<Rightarrow> Inr None
           | Some EUnhashable \<Rightarrow> Inl TypeError))"
  by (simp add: read_orientation_def mappings_get_def split: sum.splits option.splits)

text \<open>
  C5. The constructor returns an instance for every source that \<^verbatim>\<open>Image.open\<close>
  decodes, whatever its metadata. When \<^verbatim>\<open>_getexif()\<close> raises, or the orientation
  value cannot be looked up, the exception is logged at level \<^verbatim>\<open>info\<close> and no transform
  is pending. When there is no EXIF dictionary, no orientation tag in it, or a value
  that is not a number or lies outside 2 to 8, no transform is pending either. With no
  transform pending, \<^verbatim>\<open>transpose()\<close> returns the size of the source and changes
  nothing, as on a source with no tag.
\<close>

theorem init_tolerates_bad_exif:
  assumes "Image_open input_path = Inr im"
  shows "\<exists>self logs. init input_path = Inr (self, logs)
     \<and> image_obj self = im \<and> width self = fst (im_size im) \<and> height self = snd (im_size im)
     \<and> (\<forall>e. im_getexif im = Inl e \<longrightarrow>
           transpose_method self = None
           \<and> logs = [Info ''Error parsing image EXIF information: %s'' e])
     \<and> (im_getexif im = Inr None \<longrightarrow> transpose_method self = None \<and> logs = [])
     \<and> (\<forall>image_exif. im_getexif im = Inr (Some image_exif) \<longrightarrow>
           (image_exif EXIF_ORIENTATION_TAG = None \<longrightarrow>
              transpose_method self = None \<and> logs = [])
         \<and> (\<forall>s. image_exif EXIF_ORIENTATION_TAG = Some (EStr s) \<longrightarrow>
              transpose_method self = None \<and> logs = [])
         \<and> (\<forall>n. image_exif EXIF_ORIENTATION_TAG = Some (EInt n) \<longrightarrow> n < 2 \<or> 8 < n \<longrightarrow>
              transpose_method self = None \<and> logs = [])
         \<and> (image_exif EXIF_ORIENTATION_TAG = Some EUnhashable \<longrightarrow>
              transpose_method self = None
              \<and> logs = [Info ''Error parsing image EXIF information: %s'' TypeError]))
     \<and> (transpose_method self = None \<longrightarrow> transpose_t self = (im_size im, self))"
proof -
  from assms have f: "input_path = ImageFile im"
    by (simp add: Image_open_def split: input_file.splits)
  show ?thesis
  proof (cases "read_orientation im")
    case (Inl e)
    let ?self = "\<lparr>image_obj = im, width = fst (im_size im), height = snd (im_size im),
                  transpose_method = None\<rparr>"
    let ?logs = "[Info ''Error parsing image EXIF information: %s'' e]"
    have i: "init input_path = Inr (?self, ?logs)"
      using Inl f by (simp add: init_ImageFile)
    have t: "transpose_t ?self = (im_size im, ?self)"
      by (simp add: transpose_t_None)
    show ?thesis
      apply (rule exI [of _ ?self])
      apply (rule exI [of _ ?logs])
      using Inl i t
      apply (auto simp add: read_orientation_cases split: option.splits exif_value.splits)
      done
  next
    case (Inr m)
    let ?self = "\<lparr>image_obj = im, width = fst (im_size im), height = snd (im_size im),
                  transpose_method = m\<rparr>"
    have i: "init input_path = Inr (?self, [])"
      using Inr f by (simp add: init_ImageFile)
    have t: "m = None \<longrightarrow> transpose_t ?self = (im_size im, ?self)"
      by (simp add: transpose_t_None)
    show ?thesis
      apply (rule exI [of _ ?self])
      apply (rule exI [of _ "[]"])
      using Inr i t
      apply (auto simp add: read_orientation_cases mappings_out_of_range
          split: option.splits exif_value.splits)
      done
  qed
qed

text \<open>
  Two instances: a source of 100 by 50 whose EXIF block makes the parser raise, and
  one whose orientation tag holds 9.
\<close>

theorem init_tolerates_bad_exif_witness:
  "Image_open (ImageFile (broken_exif_image 100 50)) = Inr (broken_exif_image 100 50)
   \<and> im_getexif (broken_exif_image 100 50) = Inl (ExifError ''not enough data'')
   \<and> (\<exists>self. init (ImageFile (broken_exif_image 100 50)) =
                  Inr (self, [Info ''Error parsing image EXIF information: %s''
                                (ExifError ''not enough data'')])
          \<and> transpose_method self = None \<and> transpose_t self = ((100, 50), self))
   \<and> Image_open (ImageFile (tagged_image 100 50 (EInt 9))) = Inr (tagged_image 100 50 (EInt 9))
   \<and> im_getexif (tagged_image 100 50 (EInt 9)) = Inr (Some [EXIF_ORIENTATION_TAG \<mapsto> EInt 9])
   \<and> [EXIF_ORIENTATION_TAG \<mapsto> EInt 9] EXIF_ORIENTATION_TAG = Some (EInt 9)
   \<and> ((9::int) < 2 \<or> (8::int) < 9)
   \<and> (\<exists>self. init (ImageFile (tagged_image 100 50 (EInt 9))) = Inr (self, [])
          \<and> transpose_method self = None \<and> transpose_t self = ((100, 50), self))"
proof -
  have o1: "Image_open (ImageFile (broken_exif_image 100 50)) = Inr (broken_exif_image 100 50)"
    and o2: "Image_open (ImageFile (tagged_image 100 50 (EInt 9)))
               = Inr (tagged_image 100 50 (EInt 9))"
    by (simp_all add: Image_open_def)
  have g1: "im_getexif (broken_exif_image 100 50) = Inl (ExifError ''not enough data'')"
    and s1: "im_size (broken_exif_image 100 50) = (100, 50)"
    by (simp_all add: broken_exif_image_def)
  have g2: "im_getexif (tagged_image 100 50 (EInt 9))
              = Inr (Some [EXIF_ORIENTATION_TAG \<mapsto> EInt 9])"
    and s2: "im_size (tagged_image 100 50 (EInt 9)) = (100, 50)"
    by (simp_all add: tagged_image_def)
  have t2: "[EXIF_ORIENTATION_TAG \<mapsto> EInt 9] EXIF_ORIENTATION_TAG = Some (EInt 9)"
    by simp
  from init_tolerates_bad_exif [OF o1]
  have r1: "\<exists>self. init (ImageFile (broken_exif_image 100 50)) =
                  Inr (self, [Info ''Error parsing image EXIF information: %s''
                                (ExifError ''not enough data'')])
          \<and> transpose_method self = None \<and> transpose_t self = ((100, 50), self)"
    by (auto simp add: g1 s1)
  from init_tolerates_bad_exif [OF o2]
  have r2: "\<exists>self. init (ImageFile (tagged_image 100 50 (EInt 9))) = Inr (self, [])
          \<and> transpose_method self = None \<and> transpose_t self = ((100, 50), self)"
    by (auto simp add: g2 s2)
  from o1 g1 r1 o2 g2 t2 r2 show ?thesis
    by simp
qed

end
